theory Spec2Isabelle
  imports Complex_Main "HOL-Library.Signed_Division" "HOL-Library.Sublist"
begin

section \<open>The agent world of AgentWorldStarter.cpp\<close>

text \<open>
  The actor class \<^verbatim>\<open>AAgentWorldStarter\<close> spawns leaders in a line and teachers in a
  grid, each teacher with a ring of students. The layout path
  \<^verbatim>\<open>CreateAgentWorld\<close> / \<^verbatim>\<open>CreateLeaders\<close> /
  \<^verbatim>\<open>CreateTeachersAndStudents\<close> / \<^verbatim>\<open>CreateAgent\<close> is embedded here. The
  demonstration spawns of \<^verbatim>\<open>BeginPlay\<close> (houses, party zone, \<^verbatim>\<open>SpawnAgent\<close>) do not
  touch \<^verbatim>\<open>Agents\<close> and are left out.

  Conventions of the embedding.
  \<^item> \<^verbatim>\<open>float\<close> is modelled by \<^typ>\<open>real\<close>. The functions named after the source
    compute with exact arithmetic: \<^verbatim>\<open>PI\<close> is \<^term>\<open>pi\<close>, \<^verbatim>\<open>FMath::Cos\<close> and
    \<^verbatim>\<open>FMath::Sin\<close> are \<^term>\<open>cos\<close> and \<^term>\<open>sin\<close>; the properties that state a
    formula are proved about them. The functions with the suffix \<open>32\<close> round every
    operation to the 32-bit format; the property that states concrete coordinates is
    proved about them.
  \<^item> \<^verbatim>\<open>int32\<close> is modelled by \<^typ>\<open>int\<close>. The only integer arithmetic is
    \<^verbatim>\<open>i + 1\<close>, \<^verbatim>\<open>j + 1\<close>, \<^verbatim>\<open>i / 5\<close> and \<^verbatim>\<open>i % n\<close> on a loop counter that is
    below an \<^verbatim>\<open>int32\<close> bound, so nothing wraps. Division and remainder truncate towards
    zero (\<open>sdiv\<close>, \<open>smod\<close>).
  \<^item> The member \<^verbatim>\<open>Agents\<close> is the state; it is passed explicitly and returned updated.
    An \<^verbatim>\<open>AActor*\<close> is the index of the actor in \<^verbatim>\<open>Agents\<close>.
  \<^item> Spawning, meshes, materials and text components belong to the engine; the model
    keeps the values the code hands to them.
\<close>

subsection \<open>Values\<close>

datatype FVector = FVector real real real

datatype FLinearColor = FLinearColor real real real

fun FVector_add :: "FVector \<Rightarrow> FVector \<Rightarrow> FVector" where
  "FVector_add (FVector a b c) (FVector x y z) = FVector (a + x) (b + y) (c + z)"

datatype error = IntDivideByZero | FloatDivideByZero | IndexOutOfRange

text \<open>
  The three call sites of \<^verbatim>\<open>CreateAgent\<close> are the three categories of agents. The
  source tells them apart by the colour it passes; the model records the call site in
  the actor (\<open>Category\<close>). In the same way it notes in the actor of a teacher the value of
  the local \<^verbatim>\<open>LeaderName\<close> of the iteration that spawned it (\<open>LeaderAffinity\<close>): the
  source initialises that local and does not use it again. The engine's actor has
  neither field.
\<close>

datatype category = Leader | Teacher | Student

record AActor =
  ActorLabel :: string
  ActorLocation :: FVector
  SphereColor :: FLinearColor
  SphereRadius :: real
  TextLabel :: "string option"
  Crown :: bool
  Category :: category
  LeaderAffinity :: "string option"

text \<open>
  The configuration members of the class, with \<^verbatim>\<open>Leaders\<close>. The first eight are
  editable properties. \<^verbatim>\<open>Leaders\<close> is a private member that keeps its initialiser,
  \<open>DefaultLeaders\<close> below: the class never assigns it. The model leaves the field free,
  so that its statements hold for any list, and the objects of the class are those
  with \<open>Leaders this = DefaultLeaders\<close>.
\<close>

record AAgentWorldStarter =
  TeacherCount :: int
  StudentsPerTeacher :: int
  TeacherColor :: FLinearColor
  StudentColor :: FLinearColor
  LeaderColor :: FLinearColor
  AgentSize :: real
  Spacing :: real
  ShowLabels :: bool
  Leaders :: "string list"

text \<open>The initialiser of \<^verbatim>\<open>Leaders\<close>, and the object with every default of the class.\<close>

definition DefaultLeaders :: "string list" where
  "DefaultLeaders = [''phi'', ''gpt'', ''mistral'', ''codex'', ''lucidia'']"

definition default_world :: AAgentWorldStarter where
  "default_world =
     \<lparr>TeacherCount = 20, StudentsPerTeacher = 2,
      TeacherColor = FLinearColor 0 0 1, StudentColor = FLinearColor 0 1 0,
      LeaderColor = FLinearColor 1 0.84 0,
      AgentSize = 50, Spacing = 200, ShowLabels = True,
      Leaders = DefaultLeaders\<rparr>"

subsection \<open>Library operations the code calls\<close>

text \<open>\<^verbatim>\<open>TArray::Num\<close> and the range-checked \<^verbatim>\<open>TArray::operator[]\<close>.\<close>

definition Num :: "'a list \<Rightarrow> int" where
  "Num xs = int (length xs)"

definition TArray_get :: "'a list \<Rightarrow> int \<Rightarrow> error + 'a" where
  "TArray_get xs i =
     (if 0 \<le> i \<and> i < Num xs then Inr (xs ! nat i) else Inl IndexOutOfRange)"

text \<open>
  The operator \<^verbatim>\<open>%\<close> on \<^verbatim>\<open>int32\<close>. With a zero divisor the behaviour of the
  program is undefined; the model ends the run there with an error value that stands
  for it. This happens only for an empty leader list, which no object of the class has.
\<close>

definition int32_mod :: "int \<Rightarrow> int \<Rightarrow> error + int" where
  "int32_mod a b = (if b = 0 then Inl IntDivideByZero else Inr (a smod b))"

text \<open>
  Division of floats by a divisor that is not a constant. A zero divisor is flagged,
  so that the absence of the error says that no such division was evaluated.
\<close>

definition float_div :: "real \<Rightarrow> real \<Rightarrow> error + real" where
  "float_div a b = (if b = 0 then Inl FloatDivideByZero else Inr (a / b))"

text \<open>The conversion \<^verbatim>\<open>%d\<close> of \<^verbatim>\<open>FString::Printf\<close>: decimal digits, with a sign.\<close>

definition digit_char :: "nat \<Rightarrow> char" where
  "digit_char d = ''0123456789'' ! d"

fun dec_digits :: "nat \<Rightarrow> string" where
  "dec_digits n =
     (if n < 10 then [digit_char n] else dec_digits (n div 10) @ [digit_char (n mod 10)])"

declare dec_digits.simps [simp del]

definition Printf_d :: "int \<Rightarrow> string" where
  "Printf_d k = (if k < 0 then CHR ''-'' # dec_digits (nat (- k)) else dec_digits (nat k))"

subsection \<open>CreateAgent and CreateCrown\<close>

definition CreateAgent ::
  "AAgentWorldStarter \<Rightarrow> category \<Rightarrow> string \<Rightarrow> FVector \<Rightarrow> FLinearColor \<Rightarrow> real
     \<Rightarrow> AActor list \<Rightarrow> nat \<times> AActor list" where
  "CreateAgent this cat AgentName Position Color Size agents =
     (let Agent = \<lparr>ActorLabel = AgentName, ActorLocation = Position,
                   SphereColor = Color, SphereRadius = Size,
                   TextLabel = (if ShowLabels this then Some AgentName else None),
                   Crown = False, Category = cat, LeaderAffinity = None\<rparr>
      in (length agents, agents @ [Agent]))"

definition CreateCrown :: "nat \<Rightarrow> AActor list \<Rightarrow> AActor list" where
  "CreateCrown Parent agents = agents[Parent := (agents ! Parent)\<lparr>Crown := True\<rparr>]"

text \<open>Noting the local \<^verbatim>\<open>LeaderName\<close> in the actor of the teacher; not a call of the source.\<close>

definition NoteLeader :: "nat \<Rightarrow> string \<Rightarrow> AActor list \<Rightarrow> AActor list" where
  "NoteLeader Parent nm agents =
     agents[Parent := (agents ! Parent)\<lparr>LeaderAffinity := Some nm\<rparr>]"

subsection \<open>CreateLeaders\<close>

definition LeaderStartPos :: FVector where
  "LeaderStartPos = FVector 0 0 500"

function CreateLeaders_loop ::
  "AAgentWorldStarter \<Rightarrow> int \<Rightarrow> AActor list \<Rightarrow> error + AActor list" where
  "CreateLeaders_loop this i agents =
     (if i < Num (Leaders this) then
        (case TArray_get (Leaders this) i of
           Inl e \<Rightarrow> Inl e
         | Inr nm \<Rightarrow>
             (let Position = FVector_add LeaderStartPos
                               (FVector (of_int i * Spacing this * 2) 0 0);
                  LeaderName = ''Leader_'' @ nm;
                  spawned = CreateAgent this Leader LeaderName Position
                              (LeaderColor this) (AgentSize this * 1.5) agents
              in CreateLeaders_loop this (i + 1)
                   (CreateCrown (fst spawned) (snd spawned))))
      else Inr agents)"
  by pat_completeness auto
termination
  by (relation "measure (\<lambda>(this, i, agents). nat (Num (Leaders this) - i))") auto

definition CreateLeaders :: "AAgentWorldStarter \<Rightarrow> AActor list \<Rightarrow> error + AActor list" where
  "CreateLeaders this agents = CreateLeaders_loop this 0 agents"

subsection \<open>CreateTeachersAndStudents\<close>

definition TeachersPerRow :: int where
  "TeachersPerRow = 5"

definition TeacherStartPos :: FVector where
  "TeacherStartPos = FVector 0 0 (- 500)"

function CreateStudents_loop ::
  "AAgentWorldStarter \<Rightarrow> int \<Rightarrow> FVector \<Rightarrow> int \<Rightarrow> AActor list \<Rightarrow> error + AActor list" where
  "CreateStudents_loop this i TeacherPos j agents =
     (if j < StudentsPerTeacher this then
        (case float_div (of_int j * 360) (of_int (StudentsPerTeacher this)) of
           Inl e \<Rightarrow> Inl e
         | Inr q \<Rightarrow>
             (let Angle = q * pi / 180;
                  Offset = FVector (cos Angle * Spacing this) (sin Angle * Spacing this) 0;
                  StudentPos = FVector_add TeacherPos Offset;
                  StudentName = ''Teacher_'' @ Printf_d (i + 1) @ ''_Student_'' @ Printf_d (j + 1);
                  spawned = CreateAgent this Student StudentName StudentPos
                              (StudentColor this) (AgentSize this * 0.8) agents
              in CreateStudents_loop this i TeacherPos (j + 1) (snd spawned)))
      else Inr agents)"
  by pat_completeness auto
termination
  by (relation "measure (\<lambda>(this, i, p, j, agents). nat (StudentsPerTeacher this - j))") auto

text \<open>
  The initialiser of the local \<^verbatim>\<open>LeaderName\<close>, the expression
  \<^verbatim>\<open>Leaders[i % Leaders.Num()]\<close>. The body of the loop does not use the name
  afterwards, but it evaluates the expression for every teacher; the model notes the
  name in the actor once the teacher is spawned.
\<close>

definition TeacherLeaderName :: "AAgentWorldStarter \<Rightarrow> int \<Rightarrow> error + string" where
  "TeacherLeaderName this i =
     (case int32_mod i (Num (Leaders this)) of
        Inl e \<Rightarrow> Inl e
      | Inr k \<Rightarrow> TArray_get (Leaders this) k)"

function CreateTeachers_loop ::
  "AAgentWorldStarter \<Rightarrow> int \<Rightarrow> AActor list \<Rightarrow> error + AActor list" where
  "CreateTeachers_loop this i agents =
     (if i < TeacherCount this then
        (let Row = i sdiv TeachersPerRow;
             Col = i smod TeachersPerRow;
             TeacherPos = FVector_add TeacherStartPos
                            (FVector (of_int Col * Spacing this * 3)
                                     (of_int Row * Spacing this * 4) 0)
         in case TeacherLeaderName this i of
              Inl e \<Rightarrow> Inl e
            | Inr LeaderName \<Rightarrow>
               (let TeacherName = ''Teacher_'' @ Printf_d (i + 1);
                    spawned = CreateAgent this Teacher TeacherName TeacherPos
                                (TeacherColor this) (AgentSize this) agents;
                    noted = NoteLeader (fst spawned) LeaderName (snd spawned)
                in case CreateStudents_loop this i TeacherPos 0 noted of
                     Inl e \<Rightarrow> Inl e
                   | Inr agents' \<Rightarrow> CreateTeachers_loop this (i + 1) agents'))
      else Inr agents)"
  by pat_completeness auto
termination
  by (relation "measure (\<lambda>(this, i, agents). nat (TeacherCount this - i))") auto

definition CreateTeachersAndStudents ::
  "AAgentWorldStarter \<Rightarrow> AActor list \<Rightarrow> error + AActor list" where
  "CreateTeachersAndStudents this agents = CreateTeachers_loop this 0 agents"

subsection \<open>CreateAgentWorld\<close>

text \<open>
  The layout generator: the actors in \<^verbatim>\<open>Agents\<close> after \<^verbatim>\<open>CreateAgentWorld\<close> on a
  fresh object, or the error that stopped it.
\<close>

definition CreateAgentWorld :: "AAgentWorldStarter \<Rightarrow> error + AActor list" where
  "CreateAgentWorld this =
     (case CreateLeaders this [] of
        Inl e \<Rightarrow> Inl e
      | Inr agents \<Rightarrow> CreateTeachersAndStudents this agents)"

declare CreateLeaders_loop.simps [simp del]
declare CreateStudents_loop.simps [simp del]
declare CreateTeachers_loop.simps [simp del]

subsection \<open>The same code in 32-bit arithmetic\<close>

text \<open>
  The functions above compute with exact reals. Where a statement gives concrete
  coordinates, the rounding of \<^verbatim>\<open>float\<close> decides the digits, so the three loops are
  repeated here with every \<^verbatim>\<open>float\<close> operation rounded to binary32, in the order in
  which the source applies them. A \<^verbatim>\<open>float\<close> is the real number it denotes.

  \<open>rne\<close> rounds to the nearest integer, a tie to the even one. \<open>binary32\<close> rounds
  to the nearest number with 24 significant bits. Overflow and the subnormal range are
  left out: a result of magnitude below \<open>2 ^ - 126\<close> or above the largest finite value
  is not what the format gives, and no value of the example comes near either.
\<close>

definition rne :: "real \<Rightarrow> int" where
  "rne x =
     (let f = \<lfloor>x\<rfloor>
      in if x - of_int f < 1 / 2 then f
         else if 1 / 2 < x - of_int f then f + 1
         else if even f then f else f + 1)"

definition binary32 :: "real \<Rightarrow> real" where
  "binary32 x =
     (if x = 0 then 0
      else (let e = \<lfloor>log 2 \<bar>x\<bar>\<rfloor>
            in of_int (rne (x / 2 powr (of_int e - 23))) * 2 powr (of_int e - 23)))"

text \<open>
  The operators \<^verbatim>\<open>*\<close>, \<^verbatim>\<open>+\<close> and \<^verbatim>\<open>/\<close> on \<^verbatim>\<open>float\<close>, the division by
  \<^verbatim>\<open>StudentsPerTeacher\<close> with its zero divisor flagged as before, and the conversion of
  an \<^verbatim>\<open>int32\<close>.
\<close>

definition fmul :: "real \<Rightarrow> real \<Rightarrow> real" where
  "fmul a b = binary32 (a * b)"

definition fadd :: "real \<Rightarrow> real \<Rightarrow> real" where
  "fadd a b = binary32 (a + b)"

definition fdiv :: "real \<Rightarrow> real \<Rightarrow> real" where
  "fdiv a b = binary32 (a / b)"

definition float_div32 :: "real \<Rightarrow> real \<Rightarrow> error + real" where
  "float_div32 a b = (if b = 0 then Inl FloatDivideByZero else Inr (fdiv a b))"

definition float_of_int32 :: "int \<Rightarrow> real" where
  "float_of_int32 i = binary32 (of_int i)"

text \<open>
  The engine's macro \<^verbatim>\<open>PI\<close> is the literal \<^verbatim>\<open>3.1415926535897932f\<close>.
  \<^verbatim>\<open>FMath::Sin\<close> and \<^verbatim>\<open>FMath::Cos\<close> are taken to return the binary32 number nearest to
  the exact sine and cosine of their argument.
\<close>

definition PI32 :: real where
  "PI32 = binary32 3.1415926535897932"

definition Sin32 :: "real \<Rightarrow> real" where
  "Sin32 x = binary32 (sin x)"

definition Cos32 :: "real \<Rightarrow> real" where
  "Cos32 x = binary32 (cos x)"

text \<open>
  The sum of two vectors, component by component in binary32. Where the engine keeps the
  components of \<^verbatim>\<open>FVector\<close> in double precision, the sums of the example are the same:
  in each of them one summand is zero.
\<close>

fun FVector_add32 :: "FVector \<Rightarrow> FVector \<Rightarrow> FVector" where
  "FVector_add32 (FVector a b c) (FVector x y z) = FVector (fadd a x) (fadd b y) (fadd c z)"

text \<open>
  The three loops and \<^verbatim>\<open>CreateAgentWorld\<close> with the rounded operations. The literals
  that are integers, and \<^verbatim>\<open>1.5f\<close>, are binary32 numbers as they stand; \<^verbatim>\<open>0.8f\<close>
  is rounded. The members \<^verbatim>\<open>AgentSize\<close> and \<^verbatim>\<open>Spacing\<close> hold binary32 numbers.
\<close>

function CreateLeaders_loop32 ::
  "AAgentWorldStarter \<Rightarrow> int \<Rightarrow> AActor list \<Rightarrow> error + AActor list" where
  "CreateLeaders_loop32 this i agents =
     (if i < Num (Leaders this) then
        (case TArray_get (Leaders this) i of
           Inl e \<Rightarrow> Inl e
         | Inr nm \<Rightarrow>
             (let Position = FVector_add32 LeaderStartPos
                               (FVector (fmul (fmul (float_of_int32 i) (Spacing this)) 2) 0 0);
                  LeaderName = ''Leader_'' @ nm;
                  spawned = CreateAgent this Leader LeaderName Position
                              (LeaderColor this) (fmul (AgentSize this) 1.5) agents
              in CreateLeaders_loop32 this (i + 1)
                   (CreateCrown (fst spawned) (snd spawned))))
      else Inr agents)"
  by pat_completeness auto
termination
  by (relation "measure (\<lambda>(this, i, agents). nat (Num (Leaders this) - i))") auto

function CreateStudents_loop32 ::
  "AAgentWorldStarter \<Rightarrow> int \<Rightarrow> FVector \<Rightarrow> int \<Rightarrow> AActor list \<Rightarrow> error + AActor list" where
  "CreateStudents_loop32 this i TeacherPos j agents =
     (if j < StudentsPerTeacher this then
        (case float_div32 (fmul (float_of_int32 j) 360)
                (float_of_int32 (StudentsPerTeacher this)) of
           Inl e \<Rightarrow> Inl e
         | Inr q \<Rightarrow>
             (let Angle = fdiv (fmul q PI32) 180;
                  Offset = FVector (fmul (Cos32 Angle) (Spacing this))
                             (fmul (Sin32 Angle) (Spacing this)) 0;
                  StudentPos = FVector_add32 TeacherPos Offset;
                  StudentName = ''Teacher_'' @ Printf_d (i + 1) @ ''_Student_'' @ Printf_d (j + 1);
                  spawned = CreateAgent this Student StudentName StudentPos
                              (StudentColor this) (fmul (AgentSize this) (binary32 0.8)) agents
              in CreateStudents_loop32 this i TeacherPos (j + 1) (snd spawned)))
      else Inr agents)"
  by pat_completeness auto
termination
  by (relation "measure (\<lambda>(this, i, p, j, agents). nat (StudentsPerTeacher this - j))") auto

function CreateTeachers_loop32 ::
  "AAgentWorldStarter \<Rightarrow> int \<Rightarrow> AActor list \<Rightarrow> error + AActor list" where
  "CreateTeachers_loop32 this i agents =
     (if i < TeacherCount this then
        (let Row = i sdiv TeachersPerRow;
             Col = i smod TeachersPerRow;
             TeacherPos = FVector_add32 TeacherStartPos
                            (FVector (fmul (fmul (float_of_int32 Col) (Spacing this)) 3)
                                     (fmul (fmul (float_of_int32 Row) (Spacing this)) 4) 0)
         in case TeacherLeaderName this i of
              Inl e \<Rightarrow> Inl e
            | Inr LeaderName \<Rightarrow>
               (let TeacherName = ''Teacher_'' @ Printf_d (i + 1);
                    spawned = CreateAgent this Teacher TeacherName TeacherPos
                                (TeacherColor this) (AgentSize this) agents;
                    noted = NoteLeader (fst spawned) LeaderName (snd spawned)
                in case CreateStudents_loop32 this i TeacherPos 0 noted of
                     Inl e \<Rightarrow> Inl e
                   | Inr agents' \<Rightarrow> CreateTeachers_loop32 this (i + 1) agents'))
      else Inr agents)"
  by pat_completeness auto
termination
  by (relation "measure (\<lambda>(this, i, agents). nat (TeacherCount this - i))") auto

definition CreateAgentWorld32 :: "AAgentWorldStarter \<Rightarrow> error + AActor list" where
  "CreateAgentWorld32 this =
     (case CreateLeaders_loop32 this 0 [] of
        Inl e \<Rightarrow> Inl e
      | Inr agents \<Rightarrow> CreateTeachers_loop32 this 0 agents)"

declare CreateLeaders_loop32.simps [simp del]
declare CreateStudents_loop32.simps [simp del]
declare CreateTeachers_loop32.simps [simp del]

subsection \<open>Reading the output\<close>

text \<open>The actors of one category, in the order in which they were spawned.\<close>

definition records_of :: "category \<Rightarrow> AActor list \<Rightarrow> AActor list" where
  "records_of c out = filter (\<lambda>a. Category a = c) out"

text \<open>
  The placement of an actor: identifier, category, position, colour and size. The text
  label and the crown are decoration.
\<close>

definition placement :: "AActor \<Rightarrow> string \<times> category \<times> FVector \<times> FLinearColor \<times> real" where
  "placement a = (ActorLabel a, Category a, ActorLocation a, SphereColor a, SphereRadius a)"

text \<open>
  The identifier of the teacher that a student identifier names: the prefix
  \<^verbatim>\<open>Teacher_\<close> and the characters after it up to the next underscore.
\<close>

definition parent_id :: "string \<Rightarrow> string" where
  "parent_id s = take 8 s @ takeWhile (\<lambda>c. c \<noteq> CHR ''_'') (drop 8 s)"

text \<open>
  A configuration with two leaders, one teacher and two students, the colours being
  the defaults of the class.
\<close>

definition example_world :: AAgentWorldStarter where
  "example_world =
     \<lparr>TeacherCount = 1, StudentsPerTeacher = 2,
      TeacherColor = FLinearColor 0 0 1, StudentColor = FLinearColor 0 1 0,
      LeaderColor = FLinearColor 1 0.84 0,
      AgentSize = 50, Spacing = 200, ShowLabels = True,
      Leaders = [''phi'', ''gpt'']\<rparr>"

subsection \<open>The loops in closed form\<close>

text \<open>
  What each loop appends, as a function of the loop counters. The lemmas below show
  that the loops compute these lists.
\<close>

definition leader_actor :: "AAgentWorldStarter \<Rightarrow> nat \<Rightarrow> AActor" where
  "leader_actor this i =
     \<lparr>ActorLabel = ''Leader_'' @ Leaders this ! i,
      ActorLocation = FVector_add LeaderStartPos (FVector (of_nat i * Spacing this * 2) 0 0),
      SphereColor = LeaderColor this,
      SphereRadius = AgentSize this * 1.5,
      TextLabel = (if ShowLabels this then Some (''Leader_'' @ Leaders this ! i) else None),
      Crown = True, Category = Leader, LeaderAffinity = None\<rparr>"

definition student_actor :: "AAgentWorldStarter \<Rightarrow> nat \<Rightarrow> FVector \<Rightarrow> nat \<Rightarrow> AActor" where
  "student_actor this i p j =
     (let nm = ''Teacher_'' @ Printf_d (int i + 1) @ ''_Student_'' @ Printf_d (int j + 1);
          Angle = of_nat j * 360 / of_int (StudentsPerTeacher this) * pi / 180
      in \<lparr>ActorLabel = nm,
          ActorLocation = FVector_add p
                            (FVector (cos Angle * Spacing this) (sin Angle * Spacing this) 0),
          SphereColor = StudentColor this,
          SphereRadius = AgentSize this * 0.8,
          TextLabel = (if ShowLabels this then Some nm else None),
          Crown = False, Category = Student, LeaderAffinity = None\<rparr>)"

definition teacher_pos :: "AAgentWorldStarter \<Rightarrow> nat \<Rightarrow> FVector" where
  "teacher_pos this i =
     FVector_add TeacherStartPos
       (FVector (of_nat (i mod 5) * Spacing this * 3) (of_nat (i div 5) * Spacing this * 4) 0)"

definition teacher_actor :: "AAgentWorldStarter \<Rightarrow> nat \<Rightarrow> AActor" where
  "teacher_actor this i =
     \<lparr>ActorLabel = ''Teacher_'' @ Printf_d (int i + 1),
      ActorLocation = teacher_pos this i,
      SphereColor = TeacherColor this,
      SphereRadius = AgentSize this,
      TextLabel = (if ShowLabels this then Some (''Teacher_'' @ Printf_d (int i + 1)) else None),
      Crown = False, Category = Teacher,
      LeaderAffinity = Some (Leaders this ! (i mod length (Leaders this)))\<rparr>"

definition student_ring :: "AAgentWorldStarter \<Rightarrow> nat \<Rightarrow> AActor list" where
  "student_ring this i =
     map (student_actor this i (teacher_pos this i)) [0..<nat (StudentsPerTeacher this)]"

definition teacher_block :: "AAgentWorldStarter \<Rightarrow> nat \<Rightarrow> AActor list" where
  "teacher_block this i = teacher_actor this i # student_ring this i"

definition layout :: "AAgentWorldStarter \<Rightarrow> AActor list" where
  "layout this =
     map (leader_actor this) [0..<length (Leaders this)]
       @ concat (map (teacher_block this) [0..<nat (TeacherCount this)])"

text \<open>The partial sums of the series of the arc tangent, for the bounds on \<open>pi\<close>.\<close>

definition arctan_sum :: "real \<Rightarrow> nat \<Rightarrow> real" where
  "arctan_sum x m = (\<Sum>i<m. (- 1) ^ i * (1 / real (i * 2 + 1) * x ^ (i * 2 + 1)))"

definition is_digit :: "char \<Rightarrow> bool" where
  "is_digit c = (c \<in> set ''0123456789'')"

text \<open>
  The identifiers of one teacher and its students, with \<open>m\<close> students per teacher.
\<close>

definition id_block :: "nat \<Rightarrow> nat \<Rightarrow> string list" where
  "id_block m i =
     (''Teacher_'' @ dec_digits (Suc i))
       # map (\<lambda>j. ''Teacher_'' @ dec_digits (Suc i) @ ''_Student_'' @ dec_digits (Suc j))
           [0..<m]"

text \<open>The five actors that the example configuration yields.\<close>

definition example_agents :: "AActor list" where
  "example_agents =
     [\<lparr>ActorLabel = ''Leader_phi'', ActorLocation = FVector 0 0 500,
       SphereColor = FLinearColor 1 0.84 0, SphereRadius = 75,
       TextLabel = Some ''Leader_phi'', Crown = True, Category = Leader, LeaderAffinity = None\<rparr>,
      \<lparr>ActorLabel = ''Leader_gpt'', ActorLocation = FVector 400 0 500,
       SphereColor = FLinearColor 1 0.84 0, SphereRadius = 75,
       TextLabel = Some ''Leader_gpt'', Crown = True, Category = Leader, LeaderAffinity = None\<rparr>,
      \<lparr>ActorLabel = ''Teacher_1'', ActorLocation = FVector 0 0 (- 500),
       SphereColor = FLinearColor 0 0 1, SphereRadius = 50,
       TextLabel = Some ''Teacher_1'', Crown = False, Category = Teacher,
       LeaderAffinity = Some ''phi''\<rparr>,
      \<lparr>ActorLabel = ''Teacher_1_Student_1'', ActorLocation = FVector 200 0 (- 500),
       SphereColor = FLinearColor 0 1 0, SphereRadius = 40,
       TextLabel = Some ''Teacher_1_Student_1'', Crown = False, Category = Student, LeaderAffinity = None\<rparr>,
      \<lparr>ActorLabel = ''Teacher_1_Student_2'', ActorLocation = FVector (- 200) 0 (- 500),
       SphereColor = FLinearColor 0 1 0, SphereRadius = 40,
       TextLabel = Some ''Teacher_1_Student_2'', Crown = False, Category = Student, LeaderAffinity = None\<rparr>]"

section \<open>The loops compute the closed form\<close>

text \<open>
  Each loop is unfolded once per iteration, by induction on the number of iterations
  left; the output of a run is then a list given by the counters alone.
\<close>

subsection \<open>The loops\<close>

lemma smod_nat: "int i smod 5 = int (i mod 5)"
  by (cases "i = 0") (simp_all add: smod_int_alt_def zmod_int)

lemma sdiv_nat: "int i sdiv 5 = int (i div 5)"
  by (cases "i = 0") (simp_all add: signed_divide_int_def zdiv_int)

lemma CreateCrown_last:
  "CreateCrown (fst (CreateAgent this c n p col s agents))
               (snd (CreateAgent this c n p col s agents))
     = agents @ [\<lparr>ActorLabel = n, ActorLocation = p, SphereColor = col, SphereRadius = s,
                  TextLabel = (if ShowLabels this then Some n else None),
                  Crown = True, Category = c, LeaderAffinity = None\<rparr>]"
  by (simp add: CreateAgent_def CreateCrown_def Let_def)

lemma CreateLeaders_loop_closed:
  "i \<le> length (Leaders this) \<Longrightarrow>
   CreateLeaders_loop this (int i) agents
     = Inr (agents @ map (leader_actor this) [i..<length (Leaders this)])"
proof (induction k \<equiv> "length (Leaders this) - i" arbitrary: i agents)
  case 0
  then show ?case by (subst CreateLeaders_loop.simps) (simp add: Num_def)
next
  case (Suc k)
  then have lt: "i < length (Leaders this)" by simp
  have step: "CreateLeaders_loop this (int i) agents
      = CreateLeaders_loop this (int (Suc i)) (agents @ [leader_actor this i])"
    using lt
    by (subst CreateLeaders_loop.simps)
       (simp add: Num_def TArray_get_def Let_def CreateCrown_last leader_actor_def add.commute)
  have "k = length (Leaders this) - Suc i" using Suc.hyps(2) by simp
  from Suc.hyps(1)[OF this] lt have
    "CreateLeaders_loop this (int (Suc i)) (agents @ [leader_actor this i])
       = Inr ((agents @ [leader_actor this i])
               @ map (leader_actor this) [Suc i..<length (Leaders this)])"
    by simp
  with step lt show ?case by (simp add: upt_conv_Cons)
qed

lemma CreateStudents_loop_closed:
  "CreateStudents_loop this (int i) p (int j) agents
     = Inr (agents @ map (student_actor this i p) [j..<nat (StudentsPerTeacher this)])"
proof (induction k \<equiv> "nat (StudentsPerTeacher this) - j" arbitrary: j agents)
  case 0
  then have "\<not> int j < StudentsPerTeacher this" by linarith
  then show ?case using 0 by (subst CreateStudents_loop.simps) simp
next
  case (Suc k)
  then have lt: "int j < StudentsPerTeacher this"
    and lt': "j < nat (StudentsPerTeacher this)" by linarith+
  have step: "CreateStudents_loop this (int i) p (int j) agents
      = CreateStudents_loop this (int i) p (int (Suc j)) (agents @ [student_actor this i p j])"
    using lt
    by (subst CreateStudents_loop.simps)
       (simp add: float_div_def Let_def CreateAgent_def student_actor_def add.commute)
  have "k = nat (StudentsPerTeacher this) - Suc j" using Suc.hyps(2) by simp
  from Suc.hyps(1)[OF this] have
    "CreateStudents_loop this (int i) p (int (Suc j)) (agents @ [student_actor this i p j])
       = Inr ((agents @ [student_actor this i p j])
               @ map (student_actor this i p) [Suc j..<nat (StudentsPerTeacher this)])"
    by simp
  with step lt' show ?case by (simp add: upt_conv_Cons)
qed

lemma TeacherLeaderName_nonempty:
  assumes "Leaders this \<noteq> []"
  shows "TeacherLeaderName this (int i) = Inr (Leaders this ! (i mod length (Leaders this)))"
proof -
  have "int i smod int (length (Leaders this)) = int (i mod length (Leaders this))"
    by (cases "i = 0") (simp_all add: smod_int_alt_def zmod_int)
  with assms show ?thesis
    by (simp add: TeacherLeaderName_def int32_mod_def TArray_get_def Num_def)
qed

lemma TeacherLeaderName_empty:
  "Leaders this = [] \<Longrightarrow> TeacherLeaderName this i = Inl IntDivideByZero"
  by (simp add: TeacherLeaderName_def int32_mod_def Num_def)

lemma CreateTeachers_loop_closed:
  assumes ne: "Leaders this \<noteq> []"
  shows "CreateTeachers_loop this (int i) agents
     = Inr (agents @ concat (map (teacher_block this) [i..<nat (TeacherCount this)]))"
proof (induction k \<equiv> "nat (TeacherCount this) - i" arbitrary: i agents)
  case 0
  then have "\<not> int i < TeacherCount this" by linarith
  then show ?case using 0 by (subst CreateTeachers_loop.simps) simp
next
  case (Suc k)
  then have lt: "int i < TeacherCount this"
    and lt': "i < nat (TeacherCount this)" by linarith+
  have st: "CreateStudents_loop this (int i) p 0 ags
      = Inr (ags @ map (student_actor this i p) [0..<nat (StudentsPerTeacher this)])" for p ags
    using CreateStudents_loop_closed[of this i p 0 ags] by simp
  have step: "CreateTeachers_loop this (int i) agents
      = CreateTeachers_loop this (int (Suc i)) (agents @ teacher_block this i)"
    using lt
    by (subst CreateTeachers_loop.simps)
       (simp add: TeacherLeaderName_nonempty[OF ne] Let_def CreateAgent_def NoteLeader_def st
          TeachersPerRow_def smod_nat sdiv_nat teacher_block_def student_ring_def
          teacher_actor_def teacher_pos_def add.commute)
  have "k = nat (TeacherCount this) - Suc i" using Suc.hyps(2) by simp
  from Suc.hyps(1)[OF this] have
    "CreateTeachers_loop this (int (Suc i)) (agents @ teacher_block this i)
       = Inr ((agents @ teacher_block this i)
               @ concat (map (teacher_block this) [Suc i..<nat (TeacherCount this)]))"
    by simp
  with step lt' show ?case by (simp add: upt_conv_Cons)
qed

lemma CreateTeachers_loop_empty:
  assumes "Leaders this = []" and "i < TeacherCount this"
  shows "CreateTeachers_loop this i agents = Inl IntDivideByZero"
  using assms
  by (subst CreateTeachers_loop.simps) (simp add: TeacherLeaderName_empty Let_def)

lemma CreateTeachers_loop_none:
  assumes "\<not> i < TeacherCount this"
  shows "CreateTeachers_loop this i agents = Inr agents"
  using assms by (subst CreateTeachers_loop.simps) simp

lemma CreateLeaders_closed:
  "CreateLeaders this [] = Inr (map (leader_actor this) [0..<length (Leaders this)])"
  using CreateLeaders_loop_closed[of 0 this "[]"] by (simp add: CreateLeaders_def)

lemma CreateAgentWorld_ok:
  assumes "Leaders this \<noteq> [] \<or> TeacherCount this \<le> 0"
  shows "CreateAgentWorld this = Inr (layout this)"
proof (cases "Leaders this = []")
  case True
  with assms have "\<not> 0 < TeacherCount this" by simp
  then show ?thesis
    using True CreateTeachers_loop_none[of 0 this]
    by (simp add: CreateAgentWorld_def CreateLeaders_closed CreateTeachersAndStudents_def
        layout_def)
next
  case False
  then show ?thesis
    using CreateTeachers_loop_closed[of this 0]
    by (simp add: CreateAgentWorld_def CreateLeaders_closed CreateTeachersAndStudents_def
        layout_def)
qed

lemma CreateAgentWorld_fail:
  assumes "Leaders this = []" and "0 < TeacherCount this"
  shows "CreateAgentWorld this = Inl IntDivideByZero"
  using assms CreateTeachers_loop_empty[of this 0]
  by (simp add: CreateAgentWorld_def CreateLeaders_closed CreateTeachersAndStudents_def)

lemma CreateAgentWorld_Inr:
  "CreateAgentWorld this = Inr out \<Longrightarrow> out = layout this"
  by (cases "Leaders this = [] \<and> 0 < TeacherCount this")
     (auto simp: CreateAgentWorld_fail CreateAgentWorld_ok)

subsection \<open>The records of each category\<close>

lemma Category_simps [simp]:
  "Category (leader_actor this i) = Leader"
  "Category (teacher_actor this i) = Teacher"
  "Category (student_actor this i p j) = Student"
  by (simp_all add: leader_actor_def teacher_actor_def student_actor_def Let_def)

lemma concat_singletons: "concat (map (\<lambda>x. [f x]) xs) = map f xs"
  by (induction xs) simp_all

lemma concat_Nils: "concat (map (\<lambda>x. []) xs) = []"
  by (induction xs) simp_all

lemma records_of_append: "records_of c (xs @ ys) = records_of c xs @ records_of c ys"
  by (simp add: records_of_def)

lemma records_of_concat:
  "records_of c (concat (map f xs)) = concat (map (\<lambda>x. records_of c (f x)) xs)"
  by (induction xs) (simp_all add: records_of_def)

lemma records_of_leaders:
  "records_of c (map (leader_actor this) is) = (if c = Leader then map (leader_actor this) is else [])"
  by (induction "is") (auto simp: records_of_def)

lemma records_of_ring:
  "records_of c (student_ring this i) = (if c = Student then student_ring this i else [])"
  unfolding student_ring_def
  by (induction "[0..<nat (StudentsPerTeacher this)]") (auto simp: records_of_def)

lemma records_of_block:
  "records_of c (teacher_block this i) =
     (if c = Teacher then [teacher_actor this i] else if c = Student then student_ring this i else [])"
  using records_of_ring[of c this i]
  by (auto simp: teacher_block_def records_of_def)

lemma leaders_of_layout:
  "records_of Leader (layout this) = map (leader_actor this) [0..<length (Leaders this)]"
  by (simp add: layout_def records_of_append records_of_leaders records_of_concat
      records_of_block concat_Nils)

lemma teachers_of_layout:
  "records_of Teacher (layout this) = map (teacher_actor this) [0..<nat (TeacherCount this)]"
  by (simp add: layout_def records_of_append records_of_leaders records_of_concat
      records_of_block concat_singletons)

lemma students_of_layout:
  "records_of Student (layout this) = concat (map (student_ring this) [0..<nat (TeacherCount this)])"
  by (simp add: layout_def records_of_append records_of_leaders records_of_concat
      records_of_block)

lemma length_student_ring [simp]: "length (student_ring this i) = nat (StudentsPerTeacher this)"
  by (simp add: student_ring_def)

lemma length_concat_uniform:
  "(\<And>k. k < n \<Longrightarrow> length (f k) = m) \<Longrightarrow> length (concat (map f [0..<n])) = n * m"
  by (induction n) simp_all

lemma nth_concat_uniform:
  "i < n \<Longrightarrow> j < m \<Longrightarrow> (\<And>k. k < n \<Longrightarrow> length (f k) = m)
     \<Longrightarrow> concat (map f [0..<n]) ! (i * m + j) = f i ! j"
proof (induction n)
  case 0
  then show ?case by simp
next
  case (Suc n)
  have len: "length (concat (map f [0..<n])) = n * m"
    using Suc.prems(3) by (intro length_concat_uniform) simp
  show ?case
  proof (cases "i < n")
    case True
    have "i * m + j < Suc i * m" using Suc.prems(2) by simp
    also have "\<dots> \<le> n * m" using True by (intro mult_le_mono1) simp
    finally have "i * m + j < n * m" .
    with True Suc show ?thesis by (simp add: nth_append len)
  next
    case False
    with Suc.prems have "i = n" by simp
    then show ?thesis by (simp add: nth_append len)
  qed
qed

subsection \<open>The fields of the generated actors\<close>

lemma leader_fields:
  "ActorLabel (leader_actor this i) = ''Leader_'' @ Leaders this ! i"
  "ActorLocation (leader_actor this i) = FVector (of_nat i * 2 * Spacing this) 0 500"
  "SphereRadius (leader_actor this i) = AgentSize this * 1.5"
  "SphereColor (leader_actor this i) = LeaderColor this"
  by (simp_all add: leader_actor_def LeaderStartPos_def)


lemma teacher_fields:
  "ActorLabel (teacher_actor this i) = ''Teacher_'' @ Printf_d (int i + 1)"
  "ActorLocation (teacher_actor this i) = teacher_pos this i"
  "SphereRadius (teacher_actor this i) = AgentSize this"
  "SphereColor (teacher_actor this i) = TeacherColor this"
  by (simp_all add: teacher_actor_def)

lemma student_fields:
  "ActorLabel (student_actor this i p j)
     = ''Teacher_'' @ Printf_d (int i + 1) @ ''_Student_'' @ Printf_d (int j + 1)"
  "ActorLocation (student_actor this i p j)
     = FVector_add p
         (FVector (cos (of_nat j * 360 / of_int (StudentsPerTeacher this) * pi / 180) * Spacing this)
                  (sin (of_nat j * 360 / of_int (StudentsPerTeacher this) * pi / 180) * Spacing this) 0)"
  "SphereRadius (student_actor this i p j) = AgentSize this * 0.8"
  "SphereColor (student_actor this i p j) = StudentColor this"
  by (simp_all add: student_actor_def Let_def)

lemma student_nth:
  assumes "i < nat (TeacherCount this)" and "j < nat (StudentsPerTeacher this)"
  shows "records_of Student (layout this) ! (i * nat (StudentsPerTeacher this) + j)
           = student_actor this i (teacher_pos this i) j"
proof -
  have "concat (map (student_ring this) [0..<nat (TeacherCount this)])
          ! (i * nat (StudentsPerTeacher this) + j) = student_ring this i ! j"
    using assms by (intro nth_concat_uniform) simp_all
  with assms(2) show ?thesis by (simp add: students_of_layout student_ring_def)
qed

lemma student_count:
  "length (records_of Student (layout this))
     = nat (TeacherCount this) * nat (StudentsPerTeacher this)"
  unfolding students_of_layout by (intro length_concat_uniform) simp

subsection \<open>The example run\<close>

lemma dec_digits_small: "n < 10 \<Longrightarrow> dec_digits n = [digit_char n]"
  by (subst dec_digits.simps) simp

lemma Printf_d_1: "Printf_d 1 = ''1''"
  by (simp add: Printf_d_def dec_digits_small digit_char_def)

lemma Printf_d_2: "Printf_d 2 = ''2''"
  by (simp add: Printf_d_def dec_digits_small digit_char_def)

lemma upt_2: "[0..<2] = [0, 1]"
  by (simp add: upt_rec)

lemma example_layout:
  "layout \<lparr>TeacherCount = 1, StudentsPerTeacher = 2,
           TeacherColor = tc, StudentColor = sc, LeaderColor = lc,
           AgentSize = 50, Spacing = 200, ShowLabels = sl,
           Leaders = [''phi'', ''gpt'']\<rparr>
   = [\<lparr>ActorLabel = ''Leader_phi'', ActorLocation = FVector 0 0 500,
       SphereColor = lc, SphereRadius = 75,
       TextLabel = (if sl then Some ''Leader_phi'' else None),
       Crown = True, Category = Leader, LeaderAffinity = None\<rparr>,
      \<lparr>ActorLabel = ''Leader_gpt'', ActorLocation = FVector 400 0 500,
       SphereColor = lc, SphereRadius = 75,
       TextLabel = (if sl then Some ''Leader_gpt'' else None),
       Crown = True, Category = Leader, LeaderAffinity = None\<rparr>,
      \<lparr>ActorLabel = ''Teacher_1'', ActorLocation = FVector 0 0 (- 500),
       SphereColor = tc, SphereRadius = 50,
       TextLabel = (if sl then Some ''Teacher_1'' else None),
       Crown = False, Category = Teacher,
       LeaderAffinity = Some ''phi''\<rparr>,
      \<lparr>ActorLabel = ''Teacher_1_Student_1'', ActorLocation = FVector 200 0 (- 500),
       SphereColor = sc, SphereRadius = 40,
       TextLabel = (if sl then Some ''Teacher_1_Student_1'' else None),
       Crown = False, Category = Student, LeaderAffinity = None\<rparr>,
      \<lparr>ActorLabel = ''Teacher_1_Student_2'', ActorLocation = FVector (- 200) 0 (- 500),
       SphereColor = sc, SphereRadius = 40,
       TextLabel = (if sl then Some ''Teacher_1_Student_2'' else None),
       Crown = False, Category = Student, LeaderAffinity = None\<rparr>]"
  by (simp add: layout_def leader_actor_def teacher_block_def teacher_actor_def
      student_ring_def student_actor_def teacher_pos_def LeaderStartPos_def
      TeacherStartPos_def Let_def upt_2 Printf_d_1 Printf_d_2 nat_2 numeral_2_eq_2[symmetric])

lemma example_run: "CreateAgentWorld example_world = Inr example_agents"
  unfolding example_world_def example_agents_def
  by (subst CreateAgentWorld_ok) (simp_all add: example_layout)

subsection \<open>The label flag\<close>

lemma placement_ShowLabels:
  "placement (leader_actor (this\<lparr>ShowLabels := b\<rparr>) i) = placement (leader_actor this i)"
  "placement (teacher_actor (this\<lparr>ShowLabels := b\<rparr>) i) = placement (teacher_actor this i)"
  "placement (student_actor (this\<lparr>ShowLabels := b\<rparr>) i p j) = placement (student_actor this i p j)"
  "teacher_pos (this\<lparr>ShowLabels := b\<rparr>) i = teacher_pos this i"
  by (simp_all add: placement_def leader_actor_def teacher_actor_def student_actor_def
      teacher_pos_def Let_def)

lemma placement_layout_ShowLabels:
  "map placement (layout (this\<lparr>ShowLabels := b\<rparr>)) = map placement (layout this)"
  by (simp add: layout_def map_concat teacher_block_def student_ring_def placement_ShowLabels
      comp_def)

subsection \<open>Decimal numbers and identifiers\<close>

lemma digit_char_is_digit: "d < 10 \<Longrightarrow> is_digit (digit_char d)"
  unfolding digit_char_def is_digit_def by (rule nth_mem) simp

lemma digit_char_inj: "a < 10 \<Longrightarrow> b < 10 \<Longrightarrow> digit_char a = digit_char b \<Longrightarrow> a = b"
  unfolding digit_char_def
  by (subst (asm) nth_eq_iff_index_eq) simp_all

lemma dec_digits_all_digits: "list_all is_digit (dec_digits n)"
proof (induction n rule: dec_digits.induct)
  case (1 n)
  show ?case
  proof (cases "n < 10")
    case True
    then show ?thesis by (subst dec_digits.simps) (simp add: digit_char_is_digit)
  next
    case False
    with 1 show ?thesis by (subst dec_digits.simps) (simp add: digit_char_is_digit)
  qed
qed

lemma dec_digits_not_Nil: "dec_digits n \<noteq> []"
  by (subst dec_digits.simps) simp

lemma dec_digits_length1: "length (dec_digits n) = 1 \<longleftrightarrow> n < 10"
  by (subst dec_digits.simps) (simp add: dec_digits_not_Nil)

lemma dec_digits_inj: "dec_digits n = dec_digits m \<Longrightarrow> n = m"
proof (induction n arbitrary: m rule: dec_digits.induct)
  case (1 n)
  show ?case
  proof (cases "n < 10")
    case True
    have "length (dec_digits m) = 1"
      using True 1(2)[symmetric] dec_digits_length1[of n] by simp
    then have m: "m < 10" using dec_digits_length1 by blast
    from 1(2) True m have "digit_char n = digit_char m"
      by (simp add: dec_digits.simps[of n] dec_digits.simps[of m])
    then show ?thesis using True m digit_char_inj by blast
  next
    case False
    have "length (dec_digits m) \<noteq> 1"
      using False 1(2)[symmetric] dec_digits_length1[of n] by simp
    then have m: "\<not> m < 10" using dec_digits_length1 by blast
    from 1(2) False m have eq: "dec_digits (n div 10) = dec_digits (m div 10)"
      and d: "digit_char (n mod 10) = digit_char (m mod 10)"
      by (simp_all add: dec_digits.simps[of n] dec_digits.simps[of m])
    from 1(1)[OF False eq] have "n div 10 = m div 10" .
    moreover from d have "n mod 10 = m mod 10" by (intro digit_char_inj) simp_all
    ultimately show ?thesis by (metis div_mult_mod_eq)
  qed
qed

lemma Printf_d_Suc: "Printf_d (int i + 1) = dec_digits (Suc i)"
  by (simp add: Printf_d_def nat_add_distrib)

lemma takeWhile_digits:
  "list_all is_digit ds \<Longrightarrow> takeWhile (\<lambda>c. c \<noteq> CHR ''_'') (ds @ CHR ''_'' # r) = ds"
  by (induction ds) (auto simp: is_digit_def)

lemma takeWhile_digits_end:
  "list_all is_digit ds \<Longrightarrow> takeWhile (\<lambda>c. c \<noteq> CHR ''_'') ds = ds"
  by (induction ds) (auto simp: is_digit_def)

lemma parent_id_teacher:
  "parent_id (''Teacher_'' @ dec_digits n) = ''Teacher_'' @ dec_digits n"
  by (simp add: parent_id_def takeWhile_digits_end dec_digits_all_digits)

lemma parent_id_student:
  "parent_id (''Teacher_'' @ dec_digits n @ ''_Student_'' @ r) = ''Teacher_'' @ dec_digits n"
  using takeWhile_digits[OF dec_digits_all_digits, of n "''Student_'' @ r"]
  by (simp add: parent_id_def)

lemma labels_block:
  "map ActorLabel (teacher_block this i) = id_block (nat (StudentsPerTeacher this)) i"
  by (simp add: teacher_block_def student_ring_def id_block_def teacher_fields student_fields
      Printf_d_Suc)

lemma labels_layout:
  "map ActorLabel (layout this)
     = map ((@) ''Leader_'') (Leaders this)
       @ concat (map (id_block (nat (StudentsPerTeacher this))) [0..<nat (TeacherCount this)])"
proof -
  have "map (\<lambda>i. ''Leader_'' @ Leaders this ! i) [0..<length (Leaders this)]
          = map ((@) ''Leader_'') (map ((!) (Leaders this)) [0..<length (Leaders this)])"
    by simp
  also have "\<dots> = map ((@) ''Leader_'') (Leaders this)" by (simp only: map_nth)
  finally show ?thesis
    by (simp add: layout_def map_concat comp_def labels_block leader_fields)
qed

lemma parent_id_block: "s \<in> set (id_block m i) \<Longrightarrow> parent_id s = ''Teacher_'' @ dec_digits (Suc i)"
  using parent_id_teacher[of "Suc i"] parent_id_student[of "Suc i"]
  by (auto simp: id_block_def)

lemma hd_block: "s \<in> set (id_block m i) \<Longrightarrow> hd s = CHR ''T''"
  by (auto simp: id_block_def)

lemma distinct_block: "distinct (id_block m i)"
proof -
  have "inj_on (\<lambda>j. ''Teacher_'' @ dec_digits (Suc i) @ ''_Student_'' @ dec_digits (Suc j)) (set [0..<m])"
    by (rule inj_onI) (auto dest: dec_digits_inj)
  then show ?thesis by (auto simp: id_block_def distinct_map)
qed

lemma distinct_blocks: "distinct (concat (map (id_block m) [0..<n]))"
proof (induction n)
  case 0
  then show ?case by simp
next
  case (Suc n)
  have "set (concat (map (id_block m) [0..<n])) \<inter> set (id_block m n) = {}"
  proof (rule ccontr)
    assume "\<not> ?thesis"
    then obtain s i where "i < n" and "s \<in> set (id_block m i)" and "s \<in> set (id_block m n)"
      by auto
    then have "''Teacher_'' @ dec_digits (Suc i) = ''Teacher_'' @ dec_digits (Suc n)"
      using parent_id_block by metis
    then have "i = n" by (auto dest: dec_digits_inj)
    with \<open>i < n\<close> show False by simp
  qed
  with Suc show ?case by (simp add: distinct_block)
qed

lemma distinct_labels_layout:
  "distinct (map ActorLabel (layout this)) = distinct (Leaders this)"
proof -
  have "set (map ((@) ''Leader_'') (Leaders this))
          \<inter> set (concat (map (id_block (nat (StudentsPerTeacher this))) [0..<nat (TeacherCount this)])) = {}"
    by (auto dest: hd_block)
  moreover have "inj_on ((@) ''Leader_'') (set (Leaders this))"
    by (rule inj_onI) simp
  then have "distinct (map ((@) ''Leader_'') (Leaders this)) = distinct (Leaders this)"
    by (simp add: distinct_map)
  ultimately show ?thesis
    unfolding labels_layout by (simp only: distinct_append distinct_blocks simp_thms)
qed

lemma labels_leaders:
  "map ActorLabel (records_of Leader (layout this)) = map ((@) ''Leader_'') (Leaders this)"
proof -
  have "map (\<lambda>i. ''Leader_'' @ Leaders this ! i) [0..<length (Leaders this)]
          = map ((@) ''Leader_'') (map ((!) (Leaders this)) [0..<length (Leaders this)])"
    by simp
  also have "\<dots> = map ((@) ''Leader_'') (Leaders this)" by (simp only: map_nth)
  finally show ?thesis by (simp add: leaders_of_layout leader_fields comp_def)
qed

subsection \<open>Rounding to binary32\<close>

lemma rne_near: "\<bar>x - of_int n\<bar> < 1 / 2 \<Longrightarrow> rne x = n"
proof -
  assume a: "\<bar>x - of_int n\<bar> < 1 / 2"
  then have lo: "of_int n - 1 / 2 < x" and hi: "x < of_int n + 1 / 2" by linarith+
  show ?thesis
  proof (cases "of_int n \<le> x")
    case True
    have "\<lfloor>x\<rfloor> = n"
    proof (rule floor_unique)
      show "of_int n \<le> x" by (rule True)
      show "x < of_int n + 1" using hi by linarith
    qed
    with hi show ?thesis by (simp add: rne_def Let_def)
  next
    case False
    have f: "\<lfloor>x\<rfloor> = n - 1"
    proof (rule floor_unique)
      show "of_int (n - 1) \<le> x" using lo by simp
      show "x < of_int (n - 1) + 1" using False by simp
    qed
    have "1 / 2 < x - of_int (n - 1)" using lo by simp
    moreover have "\<not> x - of_int (n - 1) < 1 / 2" using lo by simp
    ultimately show ?thesis using f by (simp add: rne_def Let_def)
  qed
qed

lemma rne_of_int [simp]: "rne (of_int n) = n"
  by (rule rne_near) simp

lemma rne_numeral [simp]: "rne (numeral n) = numeral n"
  using rne_of_int[of "numeral n"] by simp

lemma rne_neg_numeral [simp]: "rne (- numeral n) = - numeral n"
  using rne_of_int[of "- numeral n"] by simp

lemma rne_0 [simp]: "rne 0 = 0"
  using rne_of_int[of 0] by simp

lemma rne_1 [simp]: "rne 1 = 1"
  using rne_of_int[of 1] by simp

lemma binary32_exponent:
  assumes "2 powr of_int e \<le> \<bar>x\<bar>" and "\<bar>x\<bar> < 2 powr (of_int e + 1)"
  shows "binary32 x = of_int (rne (x / 2 powr (of_int e - 23))) * 2 powr (of_int e - 23)"
proof -
  have pos: "0 < \<bar>x\<bar>" using assms(1) powr_gt_zero[of 2 "of_int e"] by linarith
  then have nz: "x \<noteq> 0" by simp
  have "\<lfloor>log 2 \<bar>x\<bar>\<rfloor> = e"
  proof (rule floor_unique)
    show "of_int e \<le> log 2 \<bar>x\<bar>" using assms(1) pos by (simp add: le_log_iff)
    show "log 2 \<bar>x\<bar> < of_int e + 1" using assms(2) pos by (simp add: log_less_iff)
  qed
  with nz show ?thesis by (simp add: binary32_def Let_def)
qed

lemma binary32_ge1:
  assumes "2 ^ k \<le> \<bar>x\<bar>" and "\<bar>x\<bar> < 2 * 2 ^ k"
  shows "binary32 x = of_int (rne (x * 2 ^ 23 / 2 ^ k)) * 2 ^ k / 2 ^ 23"
proof -
  have p: "2 powr (of_int (int k)) = (2::real) ^ k" by (simp add: powr_realpow)
  have q: "2 powr (of_int (int k) + 1) = 2 * (2::real) ^ k" by (simp add: powr_add powr_realpow)
  have r: "2 powr (of_int (int k) - 23) = (2::real) ^ k / 2 ^ 23"
    by (simp add: powr_diff powr_realpow)
  show ?thesis
    using binary32_exponent[of "int k" x] assms unfolding p q r by simp
qed

lemma binary32_lt1:
  assumes "1 \<le> \<bar>x\<bar> * 2 ^ k" and "\<bar>x\<bar> * 2 ^ k < 2"
  shows "binary32 x = of_int (rne (x * 2 ^ 23 * 2 ^ k)) / (2 ^ 23 * 2 ^ k)"
proof -
  have p: "2 powr (of_int (- int k)) = 1 / (2::real) ^ k" by (simp add: powr_minus powr_realpow divide_inverse)
  have "2 powr (of_int (- int k) + 1) = 2 powr (of_int (- int k)) * (2::real) powr 1"
    by (simp only: powr_add)
  then have q: "2 powr (of_int (- int k) + 1) = 2 / (2::real) ^ k"
    unfolding p by simp
  have "(of_int (- int k) - 23 :: real) = - real (23 + k)" by simp
  then have "2 powr (of_int (- int k) - 23) = inverse ((2::real) powr real (23 + k))"
    by (simp only: powr_minus)
  also have "\<dots> = inverse ((2::real) ^ (23 + k))" by (simp only: powr_realpow zero_less_numeral)
  finally have r: "2 powr (of_int (- int k) - 23) = 1 / ((2::real) ^ 23 * 2 ^ k)"
    by (simp only: power_add inverse_eq_divide)
  have a: "2 powr of_int (- int k) \<le> \<bar>x\<bar>" unfolding p using assms(1) by (simp add: field_simps)
  have b: "\<bar>x\<bar> < 2 powr (of_int (- int k) + 1)" unfolding q using assms(2) by (simp add: field_simps)
  have "x / (1 / (2 ^ 23 * 2 ^ k)) = x * 2 ^ 23 * 2 ^ k" by simp
  then show ?thesis
    using binary32_exponent[OF a b] unfolding r by (simp add: mult.assoc)
qed

subsection \<open>Bounds on pi\<close>

text \<open>
  From Machin's formula and the alternating series of the arc tangent: \<open>pi\<close> lies
  between two rationals less than \<open>10 ^ - 16\<close> apart, which separates the sine of the
  32-bit \<open>PI\<close> from the midpoint of two neighbouring binary32 numbers.
\<close>

lemma arctan_sum_bounds:
  assumes "0 \<le> x" and "x \<le> 1"
  shows "arctan_sum x (2 * n) \<le> arctan x" and "arctan x \<le> arctan_sum x (2 * n + 1)"
proof -
  let ?a = "\<lambda>n. 1 / real (n * 2 + 1) * x ^ (n * 2 + 1)"
  have abs: "\<bar>x\<bar> \<le> 1" using assms by simp
  have zero: "?a \<longlonglongrightarrow> 0" by (rule zeroseq_arctan_series[OF abs])
  have pos: "0 \<le> ?a n" for n using assms by simp
  have mono: "?a (Suc n) \<le> ?a n" for n
  proof -
    have "x ^ (Suc n * 2 + 1) \<le> x ^ (n * 2 + 1)"
      using assms by (intro power_decreasing) simp_all
    moreover have "1 / real (Suc n * 2 + 1) \<le> 1 / real (n * 2 + 1)"
      by (intro divide_left_mono) simp_all
    ultimately show ?thesis using assms by (intro mult_mono) simp_all
  qed
  note L = summable_Leibniz'[of ?a, OF zero pos mono]
  have eq: "arctan x = (\<Sum>k. (- 1) ^ k * ?a k)" by (rule arctan_series[OF abs])
  show "arctan_sum x (2 * n) \<le> arctan x"
    unfolding arctan_sum_def eq by (rule L(2))
  show "arctan x \<le> arctan_sum x (2 * n + 1)"
    unfolding arctan_sum_def eq by (rule L(4))
qed

lemma sum_upto_13:
  "(\<Sum>i<(13::nat). f i) = f 0 + f 1 + f 2 + f 3 + f 4 + f 5 + f 6 + f 7 + f 8 + f 9 + f 10 + f 11 + (f 12 :: real)"
  by (simp add: eval_nat_numeral)

lemma sum_upto_12:
  "(\<Sum>i<(12::nat). f i) = f 0 + f 1 + f 2 + f 3 + f 4 + f 5 + f 6 + f 7 + f 8 + f 9 + f 10 + (f 11 :: real)"
  by (simp add: eval_nat_numeral)

lemma sum_upto_4: "(\<Sum>i<(4::nat). f i) = f 0 + f 1 + f 2 + (f 3 :: real)"
  by (simp add: eval_nat_numeral)

lemma sum_upto_3: "(\<Sum>i<(3::nat). f i) = f 0 + f 1 + (f 2 :: real)"
  by (simp add: eval_nat_numeral)

lemma pi_lower: "884279719003555 / 281474976710656 < pi"
proof -
  have a: "arctan_sum (1 / 5) 12 \<le> arctan (1 / 5)"
    using arctan_sum_bounds(1)[of "1 / 5" 6] by simp
  have b: "arctan (1 / 239) \<le> arctan_sum (1 / 239) 3"
    using arctan_sum_bounds(2)[of "1 / 239" 1] by simp
  have "pi = 16 * arctan (1 / 5) - 4 * arctan (1 / 239)" using machin by simp
  with a b have "16 * arctan_sum (1 / 5) 12 - 4 * arctan_sum (1 / 239) 3 \<le> pi" by linarith
  moreover have "884279719003555 / 281474976710656
      < 16 * arctan_sum (1 / 5) 12 - 4 * arctan_sum (1 / 239) 3"
    unfolding arctan_sum_def sum_upto_12 sum_upto_3 by (simp add: power_one_over)
  ultimately show ?thesis by linarith
qed

lemma pi_upper: "pi < 13176795 / 4194304 - 123036616 / (10 * 2 ^ 47)"
proof -
  have a: "arctan (1 / 5) \<le> arctan_sum (1 / 5) 13"
    using arctan_sum_bounds(2)[of "1 / 5" 6] by simp
  have b: "arctan_sum (1 / 239) 4 \<le> arctan (1 / 239)"
    using arctan_sum_bounds(1)[of "1 / 239" 2] by simp
  have "pi = 16 * arctan (1 / 5) - 4 * arctan (1 / 239)" using machin by simp
  with a b have "pi \<le> 16 * arctan_sum (1 / 5) 13 - 4 * arctan_sum (1 / 239) 4" by linarith
  moreover have "16 * arctan_sum (1 / 5) 13 - 4 * arctan_sum (1 / 239) 4
      < 13176795 / 4194304 - 123036616 / (10 * 2 ^ 47)"
    unfolding arctan_sum_def sum_upto_13 sum_upto_4 by (simp add: power_one_over)
  ultimately show ?thesis by linarith
qed

subsection \<open>Sine and cosine at the 32-bit PI\<close>

lemma PI32_eq: "PI32 = 13176795 / 4194304"
  unfolding PI32_def by (subst binary32_ge1[where k = 1]) (simp_all add: rne_def)

lemma PI32_minus_pi_upper: "PI32 - pi < 24607325 / 281474976710656"
proof -
  have "PI32 - pi < 13176795 / 4194304 - 884279719003555 / 281474976710656"
    using pi_lower unfolding PI32_eq by simp
  also have "\<dots> = 24607325 / 281474976710656" by simp
  finally show ?thesis .
qed

lemma PI32_minus_pi_lower: "123036616 / 1407374883553280 < PI32 - pi"
proof -
  have "(123036616 / 1407374883553280 :: real)
          = 13176795 / 4194304 - (13176795 / 4194304 - 123036616 / (10 * 2 ^ 47))"
    by simp
  also have "\<dots> < PI32 - pi" using pi_upper unfolding PI32_eq by simp
  finally show ?thesis .
qed

lemma sin_cubic: "\<bar>sin x - x\<bar> \<le> \<bar>x\<bar> ^ 3 / 6" for x :: real
proof -
  have s: "(\<Sum>m<(3::nat). sin_coeff m * x ^ m) = x"
    by (simp add: eval_nat_numeral sin_coeff_Suc cos_coeff_Suc)
  have f: "fact (3::nat) = (6::real)"
    by (simp add: eval_nat_numeral)
  show ?thesis using Maclaurin_sin_bound[of x 3] unfolding s f by (simp add: field_simps)
qed

lemma sin_PI32: "\<bar>sin PI32 * 140737488355328 - (- 12303662)\<bar> < 1 / 2"
proof -
  define d where "d = PI32 - pi"
  have lo: "123036616 / 1407374883553280 < d"
    unfolding d_def by (rule PI32_minus_pi_lower)
  have hi: "d < 24607325 / 281474976710656"
    unfolding d_def by (rule PI32_minus_pi_upper)
  from lo have pos: "0 < d" by linarith
  have s: "sin PI32 = - sin d"
  proof -
    have e: "d + pi = PI32" by (simp add: d_def)
    show ?thesis using sin_periodic_pi[of d] unfolding e .
  qed
  have up: "sin d \<le> d" using pos by (intro sin_x_le_x) simp
  have "d < 1 / 8388608" using hi by linarith
  then have "d ^ 3 < (1 / 8388608) ^ 3" using pos by (intro power_strict_mono) simp_all
  then have cube: "d ^ 3 / 6 < 1 / 1407374883553280" by (simp add: power_one_over)
  from pos have "\<bar>d\<bar> = d" by simp
  with sin_cubic[of d] have "\<bar>sin d - d\<bar> \<le> d ^ 3 / 6" by simp
  then have low: "d - d ^ 3 / 6 \<le> sin d" by linarith
  from up hi have a: "sin d < 24607325 / 281474976710656" by linarith
  from low lo cube have b: "123036615 / 1407374883553280 < sin d" by linarith
  from a b show ?thesis unfolding s by linarith
qed

lemma Sin32_PI32: "Sin32 PI32 = - (12303662 / 2 ^ 47)"
proof -
  define y where "y = sin PI32 * 2 ^ 47"
  have "y = sin PI32 * 140737488355328" by (simp add: y_def)
  with sin_PI32 have near': "\<bar>y - (- 12303662)\<bar> < 1 / 2" by simp
  then have near: "\<bar>y - of_int (- 12303662)\<bar> < 1 / 2" by simp
  then have r: "rne y = - 12303662" by (rule rne_near)
  from near' have y: "- 12303663 < y" "y < - 12303661" by linarith+
  have x: "sin PI32 = y / 2 ^ 47" by (simp add: y_def)
  have "\<bar>sin PI32\<bar> * 2 ^ 24 = \<bar>y\<bar> / 2 ^ 23" unfolding x by (simp add: abs_mult)
  moreover have "8388608 \<le> \<bar>y\<bar>" and "\<bar>y\<bar> < 16777216" using y by linarith+
  ultimately have e: "1 \<le> \<bar>sin PI32\<bar> * 2 ^ 24" "\<bar>sin PI32\<bar> * 2 ^ 24 < 2" by simp_all
  have "sin PI32 * 2 ^ 23 * 2 ^ 24 = y" by (simp add: y_def)
  with binary32_lt1[OF e] r show ?thesis by (simp add: Sin32_def)
qed

lemma cos_near_one: "1 - x\<^sup>2 / 2 \<le> cos x" for x :: real
proof -
  have "cos x = 1 - 2 * sin (x / 2) ^ 2" using cos_double_sin[of "x / 2"] by simp
  moreover have "sin (x / 2) ^ 2 \<le> (x / 2) ^ 2"
    using abs_sin_x_le_abs_x[of "x / 2"] by (simp only: abs_le_square_iff)
  ultimately show ?thesis by (simp add: power2_eq_square)
qed

lemma Cos32_PI32: "Cos32 PI32 = - 1"
proof -
  define d where "d = PI32 - pi"
  have lo: "0 < d" using PI32_minus_pi_lower unfolding d_def by linarith
  have hi: "d < 1 / 8388608" using PI32_minus_pi_upper unfolding d_def by linarith
  have c: "cos PI32 = - cos d"
  proof -
    have e: "d + pi = PI32" by (simp add: d_def)
    show ?thesis using cos_periodic_pi[of d] unfolding e .
  qed
  have "d\<^sup>2 < (1 / 8388608)\<^sup>2" using lo hi by (intro power_strict_mono) simp_all
  then have "d\<^sup>2 / 2 < 1 / 33554432" by (simp add: power_one_over)
  with cos_near_one[of d] have low: "1 - 1 / 33554432 < cos d" by linarith
  have up: "cos d \<le> 1" by simp
  define y where "y = cos PI32"
  have y: "- 1 \<le> y" "y < - 1 + 1 / 33554432" using low up unfolding y_def c by linarith+
  have "binary32 y = - 1"
  proof (cases "y = - 1")
    case True
    then show ?thesis by (simp add: binary32_ge1[where k = 0])
  next
    case False
    with y have e: "1 \<le> \<bar>y\<bar> * 2 ^ 1" "\<bar>y\<bar> * 2 ^ 1 < 2" by simp_all
    have "\<bar>y * 16777216 - of_int (- 16777216)\<bar> < 1 / 2" using y by simp
    then have r: "rne (y * 16777216) = - 16777216" by (rule rne_near)
    have m: "y * 2 ^ 23 * 2 ^ 1 = y * 16777216" by simp
    have "binary32 y = of_int (rne (y * 16777216)) / (2 ^ 23 * 2 ^ 1)"
      using binary32_lt1[OF e] unfolding m .
    then show ?thesis unfolding r by simp
  qed
  then show ?thesis by (simp add: Cos32_def y_def)
qed

subsection \<open>The example in 32-bit arithmetic\<close>

lemma binary32_0 [simp]: "binary32 0 = 0"
  by (simp add: binary32_def)

lemma binary32_1 [simp]: "binary32 1 = 1"
  by (subst binary32_ge1[where k = 0]) simp_all

lemma binary32_2 [simp]: "binary32 2 = 2"
  by (subst binary32_ge1[where k = 1]) simp_all

lemma binary32_75 [simp]: "binary32 75 = 75"
  by (subst binary32_ge1[where k = 6]) simp_all

lemma binary32_180 [simp]: "binary32 180 = 180"
  by (subst binary32_ge1[where k = 7]) simp_all

lemma binary32_200 [simp]: "binary32 200 = 200"
  by (subst binary32_ge1[where k = 7]) simp_all

lemma binary32_360 [simp]: "binary32 360 = 360"
  by (subst binary32_ge1[where k = 8]) simp_all

lemma binary32_400 [simp]: "binary32 400 = 400"
  by (subst binary32_ge1[where k = 8]) simp_all

lemma binary32_500 [simp]: "binary32 500 = 500"
  by (subst binary32_ge1[where k = 8]) simp_all

lemma binary32_m1 [simp]: "binary32 (- 1) = - 1"
  by (subst binary32_ge1[where k = 0]) simp_all

lemma binary32_m200 [simp]: "binary32 (- 200) = - 200"
  by (subst binary32_ge1[where k = 7]) simp_all

lemma binary32_m500 [simp]: "binary32 (- 500) = - 500"
  by (subst binary32_ge1[where k = 8]) simp_all

lemma Cos32_0 [simp]: "Cos32 0 = 1"
  by (simp add: Cos32_def)

lemma Sin32_0 [simp]: "Sin32 0 = 0"
  by (simp add: Sin32_def)

lemma binary32_lit_08 [simp]: "binary32 (4 / 5) = 13421773 / 16777216"
  by (subst binary32_lt1[where k = 1]) (simp_all add: rne_def)

lemma binary32_180_PI [simp]: "binary32 (592955775 / 1048576) = 4632467 / 8192"
  by (subst binary32_ge1[where k = 9]) (simp_all add: rne_def)

lemma binary32_student_size [simp]: "binary32 (335544325 / 8388608) = 40"
  by (subst binary32_ge1[where k = 5]) (simp_all add: rne_def)

lemma binary32_angle [simp]: "binary32 (4632467 / 1474560) = 13176795 / 4194304"
  by (subst binary32_ge1[where k = 1]) (simp_all add: rne_def)

lemma Cos32_angle [simp]: "Cos32 (13176795 / 4194304) = - 1"
  using Cos32_PI32 unfolding PI32_eq .

lemma Sin32_angle [simp]: "Sin32 (13176795 / 4194304) = - (6151831 / 70368744177664)"
  using Sin32_PI32 unfolding PI32_eq by simp

lemma binary32_sin_200 [simp]:
  "binary32 (- (153795775 / 8796093022208)) = - (2403059 / 137438953472)"
  by (subst binary32_lt1[where k = 16]) (simp_all add: rne_def)

lemma binary32_y [simp]:
  "binary32 (- (2403059 / 137438953472)) = - (2403059 / 137438953472)"
  by (subst binary32_lt1[where k = 16]) simp_all

lemma example32_run:
  "CreateAgentWorld32
     \<lparr>TeacherCount = 1, StudentsPerTeacher = 2,
      TeacherColor = tc, StudentColor = sc, LeaderColor = lc,
      AgentSize = 50, Spacing = 200, ShowLabels = sl,
      Leaders = [''phi'', ''gpt'']\<rparr>
   = Inr
     [\<lparr>ActorLabel = ''Leader_phi'', ActorLocation = FVector 0 0 500,
       SphereColor = lc, SphereRadius = 75,
       TextLabel = (if sl then Some ''Leader_phi'' else None),
       Crown = True, Category = Leader, LeaderAffinity = None\<rparr>,
      \<lparr>ActorLabel = ''Leader_gpt'', ActorLocation = FVector 400 0 500,
       SphereColor = lc, SphereRadius = 75,
       TextLabel = (if sl then Some ''Leader_gpt'' else None),
       Crown = True, Category = Leader, LeaderAffinity = None\<rparr>,
      \<lparr>ActorLabel = ''Teacher_1'', ActorLocation = FVector 0 0 (- 500),
       SphereColor = tc, SphereRadius = 50,
       TextLabel = (if sl then Some ''Teacher_1'' else None),
       Crown = False, Category = Teacher, LeaderAffinity = Some ''phi''\<rparr>,
      \<lparr>ActorLabel = ''Teacher_1_Student_1'', ActorLocation = FVector 200 0 (- 500),
       SphereColor = sc, SphereRadius = 40,
       TextLabel = (if sl then Some ''Teacher_1_Student_1'' else None),
       Crown = False, Category = Student, LeaderAffinity = None\<rparr>,
      \<lparr>ActorLabel = ''Teacher_1_Student_2'',
       ActorLocation = FVector (- 200) (- (2403059 / 137438953472)) (- 500),
       SphereColor = sc, SphereRadius = 40,
       TextLabel = (if sl then Some ''Teacher_1_Student_2'' else None),
       Crown = False, Category = Student, LeaderAffinity = None\<rparr>]"
  by (simp add: CreateAgentWorld32_def CreateLeaders_loop32.simps CreateTeachers_loop32.simps
      CreateStudents_loop32.simps Num_def TArray_get_def Let_def CreateAgent_def CreateCrown_def
      NoteLeader_def LeaderStartPos_def TeacherStartPos_def TeachersPerRow_def
      TeacherLeaderName_def int32_mod_def float_div32_def fmul_def fadd_def fdiv_def
      float_of_int32_def Printf_d_1 Printf_d_2 PI32_eq)

section \<open>The properties of the layout\<close>

text \<open>
  C1. On every configuration with a leader \<^verbatim>\<open>CreateAgentWorld\<close> returns, and its
  output has \<open>length Leaders\<close> leaders, \<open>max TeacherCount 0\<close> teachers and
  \<open>max TeacherCount 0 * max StudentsPerTeacher 0\<close> students: a negative count behaves
  as zero. Every object of the class has a leader, its list being \<open>DefaultLeaders\<close>.
\<close>

theorem C1_counts:
  assumes "Leaders this \<noteq> []"
  shows "\<exists>out. CreateAgentWorld this = Inr out
           \<and> length (records_of Leader out) = length (Leaders this)
           \<and> int (length (records_of Teacher out)) = max (TeacherCount this) 0
           \<and> int (length (records_of Student out))
               = max (TeacherCount this) 0 * max (StudentsPerTeacher this) 0"
proof -
  from assms have "CreateAgentWorld this = Inr (layout this)" by (simp add: CreateAgentWorld_ok)
  moreover have "int (nat (TeacherCount this)) = max (TeacherCount this) 0"
    and "int (nat (StudentsPerTeacher this)) = max (StudentsPerTeacher this) 0" by simp_all
  ultimately show ?thesis
    by (simp add: leaders_of_layout teachers_of_layout student_count del: int_nat_eq)
qed

text \<open>
  With the defaults of the class: five leaders, twenty teachers, forty students; and
  with a teacher count of \<open>-3\<close>: five leaders and nobody else.
\<close>

theorem C1_counts_witness:
  "(\<exists>out. CreateAgentWorld default_world = Inr out
      \<and> length (records_of Leader out) = 5
      \<and> length (records_of Teacher out) = 20
      \<and> length (records_of Student out) = 40)
   \<and> (\<exists>out. CreateAgentWorld (default_world\<lparr>TeacherCount := - 3\<rparr>) = Inr out
      \<and> length (records_of Leader out) = 5
      \<and> length (records_of Teacher out) = 0
      \<and> length (records_of Student out) = 0)"
  using C1_counts [of default_world] C1_counts [of "default_world\<lparr>TeacherCount := - 3\<rparr>"]
  by (auto simp add: default_world_def DefaultLeaders_def)

text \<open>
  C2 (amended). With leaders \<^verbatim>\<open>phi\<close> and \<^verbatim>\<open>gpt\<close>, one teacher, two students per
  teacher, spacing 200 and agent size 50, whatever the colours and the label flag, the
  run in 32-bit arithmetic yields leaders at \<open>(0, 0, 500)\<close> and \<open>(400, 0, 500)\<close> of
  size 75, the teacher at \<open>(0, 0, -500)\<close> of size 50, and students of size 40 at
  \<open>(200, 0, -500)\<close> and \<open>(-200, y, -500)\<close>. The second student stands at the angle
  that the source computes for 180 degrees, the 32-bit \<open>PI\<close>, whose sine is not zero:
  \<open>y\<close> is \<open>- 2403059 / 2 ^ 37\<close>, about \<open>- 0.0000175\<close>.
\<close>

theorem C2_example:
  "map_sum id (map (\<lambda>a. (Category a, ActorLocation a, SphereRadius a)))
     (CreateAgentWorld32
        \<lparr>TeacherCount = 1, StudentsPerTeacher = 2,
         TeacherColor = tc, StudentColor = sc, LeaderColor = lc,
         AgentSize = 50, Spacing = 200, ShowLabels = sl,
         Leaders = [''phi'', ''gpt'']\<rparr>)
   = Inr
     [(Leader, FVector 0 0 500, 75),
      (Leader, FVector 400 0 500, 75),
      (Teacher, FVector 0 0 (- 500), 50),
      (Student, FVector 200 0 (- 500), 40),
      (Student, FVector (- 200) (- (2403059 / 137438953472)) (- 500), 40)]"
  by (simp add: example32_run)

text \<open>The second student is not at \<open>(-200, 0, -500)\<close>.\<close>

theorem C2_example_counterexample:
  "map_sum id (map ActorLocation) (CreateAgentWorld32 example_world)
     = Inr [FVector 0 0 500, FVector 400 0 500, FVector 0 0 (- 500), FVector 200 0 (- 500),
            FVector (- 200) (- (2403059 / 137438953472)) (- 500)]
   \<and> FVector (- 200) (- (2403059 / 137438953472)) (- 500) \<noteq> FVector (- 200) 0 (- 500)"
  by (simp add: example_world_def example32_run)







text \<open>
  C6. On every configuration with a leader, hence on every object of the class,
  \<^verbatim>\<open>CreateAgentWorld\<close> returns an output and raises no error, whatever the counts.
  With \<open>StudentsPerTeacher\<close> zero the student loop returns at once, before the
  division of its body, and the output has its teachers and no student.
\<close>

theorem C6_total:
  assumes "Leaders this \<noteq> []"
  shows "(\<exists>out. CreateAgentWorld this = Inr out
            \<and> (StudentsPerTeacher this = 0 \<longrightarrow>
                 records_of Student out = []
                 \<and> int (length (records_of Teacher out)) = max (TeacherCount this) 0))
       \<and> (StudentsPerTeacher this = 0 \<longrightarrow>
            CreateStudents_loop this i TeacherPos 0 agents = Inr agents)"
proof -
  have loop: "CreateStudents_loop this i TeacherPos 0 agents = Inr agents"
    if "StudentsPerTeacher this = 0"
    using that by (subst CreateStudents_loop.simps) simp
  from assms have ok: "CreateAgentWorld this = Inr (layout this)"
    by (simp add: CreateAgentWorld_ok)
  have "records_of Student (layout this) = []" if "StudentsPerTeacher this = 0"
    using student_count[of this] that by simp
  moreover have "int (nat (TeacherCount this)) = max (TeacherCount this) 0" by simp
  ultimately show ?thesis using ok loop
    by (simp add: teachers_of_layout del: int_nat_eq)
qed

text \<open>The defaults of the class with no students per teacher: twenty teachers, no student.\<close>

theorem C6_total_witness:
  "CreateStudents_loop (default_world\<lparr>StudentsPerTeacher := 0\<rparr>) 0 TeacherStartPos 0 [] = Inr []
   \<and> (\<exists>out. CreateAgentWorld (default_world\<lparr>StudentsPerTeacher := 0\<rparr>) = Inr out
         \<and> records_of Student out = []
         \<and> length (records_of Teacher out) = 20)"
  using C6_total [of "default_world\<lparr>StudentsPerTeacher := 0\<rparr>" 0 TeacherStartPos "[]"]
  by (auto simp add: default_world_def DefaultLeaders_def)



text \<open>
  C8. On every configuration whose leader list is non-empty and without repetition, as
  \<open>DefaultLeaders\<close> is, hence on every object of the class, the run returns and the
  identifiers of its output are pairwise distinct, across leaders, teachers and
  students.
\<close>

theorem C8_distinct_ids:
  assumes "Leaders this \<noteq> []" and "distinct (Leaders this)"
  shows "\<exists>out. CreateAgentWorld this = Inr out \<and> distinct (map ActorLabel out)"
proof -
  from assms(1) have "CreateAgentWorld this = Inr (layout this)"
    by (simp add: CreateAgentWorld_ok)
  moreover from assms(2) have "distinct (map ActorLabel (layout this))"
    by (simp only: distinct_labels_layout)
  ultimately show ?thesis by simp
qed

text \<open>The sixty-five identifiers of the default world differ.\<close>

theorem C8_distinct_ids_witness:
  "\<exists>out. CreateAgentWorld default_world = Inr out
      \<and> length out = 65 \<and> distinct (map ActorLabel out)"
proof -
  have "length out = 65" if "CreateAgentWorld default_world = Inr out" for out
  proof -
    from that have "out = layout default_world" by (rule CreateAgentWorld_Inr)
    then show ?thesis
      by (simp add: layout_def length_concat_uniform[where m = 3] teacher_block_def
          default_world_def DefaultLeaders_def)
  qed
  with C8_distinct_ids [of default_world] show ?thesis
    by (auto simp add: default_world_def DefaultLeaders_def)
qed

text \<open>
  C9. Setting \<open>ShowLabels\<close> to any value changes neither the outcome of the run nor
  the placements of its output (identifier, category, position, colour, size); the flag
  only decides whether \<^verbatim>\<open>CreateAgent\<close> attaches a text label.
\<close>

theorem C9_ShowLabels_passthrough:
  "map_sum id (map placement) (CreateAgentWorld (this\<lparr>ShowLabels := b\<rparr>))
     = map_sum id (map placement) (CreateAgentWorld this)"
proof (cases "Leaders this \<noteq> [] \<or> TeacherCount this \<le> 0")
  case True
  then have "CreateAgentWorld this = Inr (layout this)"
    and "CreateAgentWorld (this\<lparr>ShowLabels := b\<rparr>) = Inr (layout (this\<lparr>ShowLabels := b\<rparr>))"
    by (simp_all add: CreateAgentWorld_ok)
  then show ?thesis by (simp add: placement_layout_ShowLabels)
next
  case False
  then have "CreateAgentWorld this = Inl IntDivideByZero"
    and "CreateAgentWorld (this\<lparr>ShowLabels := b\<rparr>) = Inl IntDivideByZero"
    by (simp_all add: CreateAgentWorld_fail)
  then show ?thesis by simp
qed

text \<open>
  C10. In every output the identifiers of the leaders are the configured names after
  \<^verbatim>\<open>Leader_\<close>; teacher \<open>i\<close> is \<^verbatim>\<open>Teacher_\<close> followed by \<open>i + 1\<close>; student
  \<open>j\<close> of teacher \<open>i\<close> is the identifier of that teacher followed by
  \<^verbatim>\<open>_Student_\<close> and \<open>j + 1\<close>. So the identifier of the teacher is a strict prefix
  of the identifier of its student, and \<open>parent_id\<close> computes it from the identifier of
  the student alone.
\<close>

theorem C10_id_formats:
  assumes "CreateAgentWorld this = Inr out"
  shows "map ActorLabel (records_of Leader out) = map ((@) ''Leader_'') (Leaders this)
       \<and> (i < length (records_of Teacher out) \<longrightarrow>
            ActorLabel (records_of Teacher out ! i) = ''Teacher_'' @ Printf_d (int i + 1))
       \<and> (i < length (records_of Teacher out) \<and> int j < StudentsPerTeacher this \<longrightarrow>
            ActorLabel (records_of Student out ! (i * nat (StudentsPerTeacher this) + j))
              = ActorLabel (records_of Teacher out ! i) @ ''_Student_'' @ Printf_d (int j + 1)
            \<and> strict_prefix (ActorLabel (records_of Teacher out ! i))
                 (ActorLabel (records_of Student out ! (i * nat (StudentsPerTeacher this) + j)))
            \<and> parent_id (ActorLabel (records_of Student out ! (i * nat (StudentsPerTeacher this) + j)))
                 = ActorLabel (records_of Teacher out ! i))"
proof -
  from assms have out: "out = layout this" by (rule CreateAgentWorld_Inr)
  have teacher: "ActorLabel (records_of Teacher out ! i) = ''Teacher_'' @ Printf_d (int i + 1)"
    if "i < length (records_of Teacher out)"
    using that by (simp add: out teachers_of_layout teacher_fields)
  have student: "ActorLabel (records_of Student out ! (i * nat (StudentsPerTeacher this) + j))
      = ''Teacher_'' @ Printf_d (int i + 1) @ ''_Student_'' @ Printf_d (int j + 1)"
    if "i < length (records_of Teacher out)" and "int j < StudentsPerTeacher this"
  proof -
    from that have "i < nat (TeacherCount this)" and "j < nat (StudentsPerTeacher this)"
      by (simp_all add: out teachers_of_layout)
    then show ?thesis by (simp add: out student_nth student_fields)
  qed
  have pre: "strict_prefix (''Teacher_'' @ Printf_d (int i + 1))
               (''Teacher_'' @ Printf_d (int i + 1) @ ''_Student_'' @ Printf_d (int j + 1))"
    by (simp add: strict_prefix_def)
  have par: "parent_id (''Teacher_'' @ Printf_d (int i + 1) @ ''_Student_'' @ Printf_d (int j + 1))
               = ''Teacher_'' @ Printf_d (int i + 1)"
    unfolding Printf_d_Suc by (rule parent_id_student)
  show ?thesis
    using teacher student pre par by (simp add: out labels_leaders)
qed

text \<open>The identifiers of the example.\<close>

theorem C10_id_formats_witness:
  "CreateAgentWorld example_world = Inr example_agents
   \<and> map ActorLabel (records_of Leader example_agents) = [''Leader_phi'', ''Leader_gpt'']
   \<and> ActorLabel (records_of Teacher example_agents ! 0) = ''Teacher_1''
   \<and> ActorLabel (records_of Student example_agents ! 1) = ''Teacher_1_Student_2''
   \<and> strict_prefix ''Teacher_1'' ''Teacher_1_Student_2''
   \<and> parent_id ''Teacher_1_Student_2'' = ''Teacher_1''"
  using C10_id_formats [OF example_run, of 0 1] example_run
  by (simp add: records_of_def example_agents_def example_world_def Printf_d_1 Printf_d_2)

end
